theory Spec2Isabelle
  imports Complex_Main "HOL-Library.Sublist" "HOL-Library.AList"
begin

section \<open>Python strings\<close>

text \<open>
  A Python \<open>str\<close> is modelled as a HOL \<open>string\<close>. The operations below are the ones
  the Google Ads tools apply to query texts, field paths, header names and cache keys.
\<close>

text \<open>\<open>needle in s\<close>: substring test, scanning the start positions from the left.\<close>

fun str_contains :: "string \<Rightarrow> string \<Rightarrow> bool" where
  "str_contains needle [] = (needle = [])"
| "str_contains needle (c # cs) = (prefix needle (c # cs) \<or> str_contains needle cs)"

text \<open>\<open>s.endswith(t)\<close>.\<close>

definition endswith :: "string \<Rightarrow> string \<Rightarrow> bool" where
  "endswith s t = (length t \<le> length s \<and> drop (length s - length t) s = t)"





text \<open>\<open>str(n)\<close> for a non-negative integer: its decimal digits.\<close>

definition digit_char :: "nat \<Rightarrow> char" where
  "digit_char d = char_of (48 + d)"

function str_nat :: "nat \<Rightarrow> string" where
  "str_nat n = (if n < 10 then [digit_char n] else str_nat (n div 10) @ [digit_char (n mod 10)])"
  by pat_completeness auto
termination
  by (relation "measure id") auto

section \<open>Python values and exceptions\<close>

text \<open>
  The exceptions that the modelled code can meet. All of them derive from Python's
  \<open>Exception\<close>, so an \<open>except Exception\<close> clause catches every one of them.
\<close>

datatype py_exception =
    AttributeError
  | TypeError
  | OverflowError
  | ValueError
  | OSError
  | ImportError
  | FileNotFoundError string
  | RuntimeError string
  | Exception string

text \<open>
  Plain data as YAML and JSON documents yield it. Floats are modelled by real numbers:
  the rounding of IEEE doubles plays no role below, where timestamps are only added and
  compared.
\<close>

datatype pyval =
    PNone
  | PBool bool
  | PInt int
  | PFloat real
  | PStr string
  | PList "pyval list"
  | PDict "(string \<times> pyval) list"

text \<open>Truth value of a Python object, as \<open>if x\<close> and \<open>not x\<close> test it.\<close>

fun truthy :: "pyval \<Rightarrow> bool" where
  "truthy PNone = False"
| "truthy (PBool b) = b"
| "truthy (PInt i) = (i \<noteq> 0)"
| "truthy (PFloat r) = (r \<noteq> 0)"
| "truthy (PStr s) = (s \<noteq> [])"
| "truthy (PList xs) = (xs \<noteq> [])"
| "truthy (PDict kvs) = (kvs \<noteq> [])"

text \<open>
  \<open>d.get(key, default)\<close>. Only a dictionary has the method: on any other value the
  attribute lookup raises \<open>AttributeError\<close>.
\<close>

definition dict_get :: "pyval \<Rightarrow> string \<Rightarrow> pyval \<Rightarrow> py_exception + pyval" where
  "dict_get d key dflt =
     (case d of
        PDict kvs \<Rightarrow> Inr (case map_of kvs key of None \<Rightarrow> dflt | Some v \<Rightarrow> v)
      | _ \<Rightarrow> Inl AttributeError)"

text \<open>
  The number a value contributes to \<open>time.time() + expires_in - 60\<close>. A \<open>bool\<close> counts
  as 0 or 1; an \<open>int\<close> is converted to a float, which fails with \<open>OverflowError\<close> beyond
  the range of a double; any other operand makes the addition a \<open>TypeError\<close>.
\<close>

definition float_operand :: "pyval \<Rightarrow> py_exception + real" where
  "float_operand v =
     (case v of
        PBool b \<Rightarrow> Inr (if b then 1 else 0)
      | PInt i \<Rightarrow> (if \<bar>i\<bar> < 2 ^ 1024 - 2 ^ 970 then Inr (real_of_int i) else Inl OverflowError)
      | PFloat r \<Rightarrow> Inr r
      | _ \<Rightarrow> Inl TypeError)"

section \<open>The OAuth client (\<open>ads_mcp/oauth_client.py\<close>)\<close>

text \<open>
  \<open>DynamicOAuthClient.token_cache\<close> is a dictionary from cache keys to entries with the
  three fields that \<open>_generate_access_token_from_refresh\<close> writes.
\<close>

record cache_entry =
  access_token :: pyval
  expires_at :: real
  refresh_token_hash :: string

type_synonym token_cache = "string \<rightharpoonup> cache_entry"

text \<open>A request sent with \<open>requests.post(url, data)\<close>, and the response read from it.\<close>

type_synonym http_post = "string \<times> (string \<times> pyval) list"

record response =
  status_code :: int
  json :: "py_exception + pyval"

text \<open>
  What one call of \<open>_generate_access_token_from_refresh\<close> finds outside the process:
  the clock at the cache check and at the cache write, the imports inside the \<open>try\<close>
  block, the environment variable \<open>GOOGLE_ADS_CREDENTIALS\<close>, the constant \<open>ROOT_DIR\<close> of
  \<open>ads_mcp.utils\<close>, the file system, the YAML parser and the OAuth provider. Messages
  written to the log are not part of the model.
\<close>

record oauth_world =
  time_check :: real
  time_store :: real
  import_failure :: "py_exception option"
  env_credentials :: "string option"
  ROOT_DIR :: string
  isfile :: "string \<Rightarrow> bool"
  read_text :: "string \<Rightarrow> py_exception + string"
  yaml_safe_load :: "string \<Rightarrow> py_exception + pyval"
  requests_post :: "http_post \<Rightarrow> py_exception + response"

text \<open>
  \<^verbatim>\<open>
  def _get_cache_key_for_refresh_token(self, refresh_token: str) -> str:
      token_hash = abs(hash(refresh_token))
      return f"refresh_token_{token_hash}"
  \<close>
  Python's \<open>hash\<close> of a string is fixed for the life of the process; it is the parameter
  \<open>h\<close>.
\<close>

definition get_cache_key_for_refresh_token :: "(string \<Rightarrow> int) \<Rightarrow> string \<Rightarrow> string" where
  "get_cache_key_for_refresh_token h refresh_token =
     (let token_hash = \<bar>h refresh_token\<bar> in ''refresh_token_'' @ str_nat (nat token_hash))"

text \<open>
  Lines 51 to 68: the client credentials of the application. \<open>Inr None\<close> stands for the
  two early \<open>return None\<close>.
\<close>

definition credentials_path :: "oauth_world \<Rightarrow> string" where
  "credentials_path w =
     (case env_credentials w of Some p \<Rightarrow> p | None \<Rightarrow> ROOT_DIR w @ ''/google-ads.yaml'')"

definition read_client_credentials :: "oauth_world \<Rightarrow> py_exception + (pyval \<times> pyval) option" where
  "read_client_credentials w =
     (case import_failure w of
        Some e \<Rightarrow> Inl e
      | None \<Rightarrow>
          if \<not> isfile w (credentials_path w) then Inr None
          else
            (case read_text w (credentials_path w) of
               Inl e \<Rightarrow> Inl e
             | Inr content \<Rightarrow>
                 (case yaml_safe_load w content of
                    Inl e \<Rightarrow> Inl e
                  | Inr ads_config \<Rightarrow>
                      (case dict_get ads_config ''client_id'' PNone of
                         Inl e \<Rightarrow> Inl e
                       | Inr client_id \<Rightarrow>
                           (case dict_get ads_config ''client_secret'' PNone of
                              Inl e \<Rightarrow> Inl e
                            | Inr client_secret \<Rightarrow>
                                if \<not> truthy client_id \<or> \<not> truthy client_secret then Inr None
                                else Inr (Some (client_id, client_secret)))))))"

text \<open>Lines 71 to 76: the request sent to Google's token endpoint.\<close>

definition token_request :: "pyval \<Rightarrow> pyval \<Rightarrow> string \<Rightarrow> http_post" where
  "token_request client_id client_secret refresh_token =
     (''https://oauth2.googleapis.com/token'',
      [(''client_id'', client_id),
       (''client_secret'', client_secret),
       (''refresh_token'', PStr refresh_token),
       (''grant_type'', PStr ''refresh_token'')])"

text \<open>
  Lines 78 to 98: reading the response, and the cache write on success. The result is
  the value returned or the exception raised, with the cache afterwards.
\<close>

definition store_token ::
  "(string \<Rightarrow> int) \<Rightarrow> oauth_world \<Rightarrow> token_cache \<Rightarrow> string \<Rightarrow> response \<Rightarrow>
     (py_exception + pyval) \<times> token_cache" where
  "store_token h w c refresh_token resp =
     (if status_code resp = 200 then
        (case json resp of
           Inl e \<Rightarrow> (Inl e, c)
         | Inr token_data \<Rightarrow>
             (case dict_get token_data ''access_token'' PNone of
                Inl e \<Rightarrow> (Inl e, c)
              | Inr token \<Rightarrow>
                  (case dict_get token_data ''expires_in'' (PInt 3600) of
                     Inl e \<Rightarrow> (Inl e, c)
                   | Inr expires_in \<Rightarrow>
                       if truthy token then
                         (case float_operand expires_in of
                            Inl e \<Rightarrow> (Inl e, c)
                          | Inr seconds \<Rightarrow>
                              (Inr token,
                               c(get_cache_key_for_refresh_token h refresh_token \<mapsto>
                                  \<lparr>access_token = token,
                                   expires_at = time_store w + seconds - 60,
                                   refresh_token_hash = take 10 refresh_token\<rparr>)))
                       else (Inr PNone, c))))
      else (Inr PNone, c))"

text \<open>
  The body of the \<open>try\<close> block, lines 50 to 98: the value returned or the exception
  raised, the cache afterwards, and the requests sent to the OAuth provider.
\<close>

definition exchange ::
  "(string \<Rightarrow> int) \<Rightarrow> oauth_world \<Rightarrow> token_cache \<Rightarrow> string \<Rightarrow>
     (py_exception + pyval) \<times> token_cache \<times> http_post list" where
  "exchange h w c refresh_token =
     (case read_client_credentials w of
        Inl e \<Rightarrow> (Inl e, c, [])
      | Inr None \<Rightarrow> (Inr PNone, c, [])
      | Inr (Some (client_id, client_secret)) \<Rightarrow>
          (let req = token_request client_id client_secret refresh_token in
           case requests_post w req of
             Inl e \<Rightarrow> (Inl e, c, [req])
           | Inr resp \<Rightarrow>
               (case store_token h w c refresh_token resp of (r, c') \<Rightarrow> (r, c', [req]))))"

text \<open>The \<open>try\<close> statement with its clause \<open>except Exception: ... return None\<close>.\<close>

definition try_exchange ::
  "(string \<Rightarrow> int) \<Rightarrow> oauth_world \<Rightarrow> token_cache \<Rightarrow> string \<Rightarrow>
     (py_exception + pyval) \<times> token_cache \<times> http_post list" where
  "try_exchange h w c refresh_token =
     (case exchange h w c refresh_token of
        (Inl e, c', sent) \<Rightarrow> (Inr PNone, c', sent)
      | (Inr v, c', sent) \<Rightarrow> (Inr v, c', sent))"

text \<open>
  \<^verbatim>\<open>
  def _generate_access_token_from_refresh(self, refresh_token: str) -> Optional[str]:
      cache_key = self._get_cache_key_for_refresh_token(refresh_token)
      if cache_key in self.token_cache:
          cached_data = self.token_cache[cache_key]
          if cached_data['expires_at'] > time.time():
              return cached_data['access_token']
      try:
          ...
      except Exception as e:
          return None
  \<close>
  The cache check stands before the \<open>try\<close> statement. The result is \<open>Inl\<close> of an
  exception that leaves the method, or \<open>Inr\<close> of the value returned, where \<open>PNone\<close> is
  Python's \<open>None\<close>.
\<close>

definition generate_access_token_from_refresh ::
  "(string \<Rightarrow> int) \<Rightarrow> oauth_world \<Rightarrow> token_cache \<Rightarrow> string \<Rightarrow>
     (py_exception + pyval) \<times> token_cache \<times> http_post list" where
  "generate_access_token_from_refresh h w c refresh_token =
     (let cache_key = get_cache_key_for_refresh_token h refresh_token in
      case c cache_key of
        Some cached_data \<Rightarrow>
          if expires_at cached_data > time_check w then (Inr (access_token cached_data), c, [])
          else try_exchange h w c refresh_token
      | None \<Rightarrow> try_exchange h w c refresh_token)"

section \<open>The Google Ads tools (\<open>ads_mcp/tools/api.py\<close>)\<close>

subsection \<open>Request headers\<close>

text \<open>
  \<^verbatim>\<open>
  def get_refresh_token_from_headers() -> str | None:
    try:
      headers = get_http_headers()
      if headers:
        return headers.get('x-oauth-refresh-token') or headers.get('X-OAuth-Refresh-Token')
    except Exception:
      pass
    return None
  \<close>
  The argument is what FastMCP's \<open>get_http_headers()\<close> yields: an exception, or a
  dictionary from header names to header values.
\<close>



subsection \<open>Query preprocessing\<close>

text \<open>
  \<^verbatim>\<open>
  def preprocess_gaql(query: str) -> str:
    if "omit_unselected_resource_names" not in query:
      if "PARAMETERS" in query and "include_drafts" in query:
        return query + " omit_unselected_resource_names=true"
      return query + " PARAMETERS omit_unselected_resource_names=true"
    return query
  \<close>
\<close>

definition preprocess_gaql :: "string \<Rightarrow> string" where
  "preprocess_gaql query =
     (if \<not> str_contains ''omit_unselected_resource_names'' query then
        (if str_contains ''PARAMETERS'' query \<and> str_contains ''include_drafts'' query
         then query @ '' omit_unselected_resource_names=true''
         else query @ '' PARAMETERS omit_unselected_resource_names=true'')
      else query)"

subsection \<open>Formatting response values\<close>

text \<open>
  A value found in a response row: a protocol-buffer message with its fields, an enum
  member, or plain data. An enum member carries the outcome of reading its attribute
  \<open>name\<close> (the symbolic name, or the exception the read raises) and its number
  \<open>int(value)\<close>.
\<close>

datatype ads_value =
    Message "(string \<times> ads_value) list"
  | Enum "py_exception + string" int
  | Plain pyval

text \<open>
  The body of the \<open>try\<close> block of \<open>format_value\<close>. \<open>proto.Message.to_dict\<close> belongs to
  the protocol-buffer library and is the parameter \<open>to_dict\<close>.
  \<^verbatim>\<open>
    if isinstance(value, proto.Message):
      return_value = proto.Message.to_dict(value)
    elif isinstance(value, proto.Enum):
      try:
        return_value = value.name
      except AttributeError:
        return_value = int(value)
    else:
      return_value = value
    return return_value
  \<close>
\<close>

definition format_value_body ::
  "(ads_value \<Rightarrow> py_exception + pyval) \<Rightarrow> ads_value \<Rightarrow> py_exception + ads_value" where
  "format_value_body to_dict v =
     (case v of
        Message contents \<Rightarrow>
          (case to_dict v of Inl e \<Rightarrow> Inl e | Inr d \<Rightarrow> Inr (Plain d))
      | Enum name_attr number \<Rightarrow>
          (case name_attr of
             Inr name \<Rightarrow> Inr (Plain (PStr name))
           | Inl AttributeError \<Rightarrow> Inr (Plain (PInt number))
           | Inl e \<Rightarrow> Inl e)
      | Plain p \<Rightarrow> Inr v)"

text \<open>
  \<^verbatim>\<open>
  def format_value(value: Any) -> Any:
    try:
      ...
    except Exception as e:
      print(f"DEBUG: format_value error for value {value}: {e}", file=sys.stderr)
      # Return the raw value if formatting fails
      return value
  \<close>
  The \<open>print\<close> call of the handler stands outside any \<open>try\<close> block. It renders the
  value and the exception into the line and writes the line to the standard error
  stream; either step can raise. The parameter \<open>debug_print\<close> gives its outcome for a value
  and an exception: \<open>None\<close> when the line is written, or the exception that the call
  raises, which then leaves \<open>format_value\<close>.
\<close>

definition format_value ::
  "(ads_value \<Rightarrow> py_exception + pyval) \<Rightarrow> (ads_value \<Rightarrow> py_exception \<Rightarrow> py_exception option) \<Rightarrow>
     ads_value \<Rightarrow> py_exception + ads_value" where
  "format_value to_dict debug_print v =
     (case format_value_body to_dict v of
        Inl e \<Rightarrow> (case debug_print v e of Some e' \<Rightarrow> Inl e' | None \<Rightarrow> Inr v)
      | Inr r \<Rightarrow> Inr r)"

subsection \<open>Flattening the rows of a response\<close>









subsection \<open>Reporting a failure of the Ads API\<close>



subsection \<open>\<open>execute_gaql\<close>\<close>




section \<open>Facts about strings\<close>

declare str_nat.simps [simp del]

lemma str_contains_sublist: "str_contains needle s = sublist needle s"
  by (induction s) (simp_all add: sublist_Cons_right)

lemma str_contains_append_right: "str_contains needle t \<Longrightarrow> str_contains needle (s @ t)"
  unfolding str_contains_sublist sublist_def by (metis append.assoc)

lemma endswith_append: "endswith (s @ t) t"
  by (simp add: endswith_def)

section \<open>Properties of the query preprocessing\<close>

text \<open>
  Claim C4. A query that contains neither the directive \<open>omit_unselected_resource_names\<close>
  nor the drafts marker \<open>include_drafts\<close> is returned with
  \<open> PARAMETERS omit_unselected_resource_names=true\<close> appended, so the result ends with
  \<open>PARAMETERS omit_unselected_resource_names=true\<close>.
\<close>

theorem preprocess_gaql_appends_parameters:
  assumes "\<not> str_contains ''omit_unselected_resource_names'' query"
    and "\<not> str_contains ''include_drafts'' query"
  shows "preprocess_gaql query = query @ '' PARAMETERS omit_unselected_resource_names=true''
    \<and> endswith (preprocess_gaql query) ''PARAMETERS omit_unselected_resource_names=true''"
proof -
  have eq: "preprocess_gaql query = query @ '' PARAMETERS omit_unselected_resource_names=true''"
    using assms by (simp add: preprocess_gaql_def)
  have "endswith ((query @ '' '') @ ''PARAMETERS omit_unselected_resource_names=true'')
          ''PARAMETERS omit_unselected_resource_names=true''"
    by (rule endswith_append)
  then show ?thesis using eq by simp
qed

theorem preprocess_gaql_appends_parameters_witness:
  "\<not> str_contains ''omit_unselected_resource_names'' ''SELECT campaign.id FROM campaign''
   \<and> \<not> str_contains ''include_drafts'' ''SELECT campaign.id FROM campaign''
   \<and> preprocess_gaql ''SELECT campaign.id FROM campaign''
       = ''SELECT campaign.id FROM campaign'' @ '' PARAMETERS omit_unselected_resource_names=true''
   \<and> endswith (preprocess_gaql ''SELECT campaign.id FROM campaign'')
        ''PARAMETERS omit_unselected_resource_names=true''"
proof -
  have a: "\<not> str_contains ''omit_unselected_resource_names'' ''SELECT campaign.id FROM campaign''"
    by simp
  have b: "\<not> str_contains ''include_drafts'' ''SELECT campaign.id FROM campaign''"
    by simp
  show ?thesis
    using a b preprocess_gaql_appends_parameters [OF a b] by blast
qed

lemma preprocess_gaql_has_directive:
  "str_contains ''omit_unselected_resource_names'' (preprocess_gaql query)"
proof -
  have 1: "str_contains ''omit_unselected_resource_names'' '' omit_unselected_resource_names=true''"
    by simp
  have 2: "str_contains ''omit_unselected_resource_names''
     '' PARAMETERS omit_unselected_resource_names=true''"
    by simp
  show ?thesis
    unfolding preprocess_gaql_def
    using str_contains_append_right [OF 1, of query] str_contains_append_right [OF 2, of query]
    by simp
qed

text \<open>
  Claim C5. A query that already contains the directive marker
  \<open>omit_unselected_resource_names\<close> is returned unchanged, and preprocessing is
  idempotent: preprocessing a preprocessed query changes nothing.
\<close>

theorem preprocess_gaql_idempotent:
  "(str_contains ''omit_unselected_resource_names'' query \<longrightarrow> preprocess_gaql query = query)
   \<and> preprocess_gaql (preprocess_gaql query) = preprocess_gaql query"
proof
  show "str_contains ''omit_unselected_resource_names'' query \<longrightarrow> preprocess_gaql query = query"
    by (simp add: preprocess_gaql_def)
  have "str_contains ''omit_unselected_resource_names'' (preprocess_gaql query)"
    by (rule preprocess_gaql_has_directive)
  then show "preprocess_gaql (preprocess_gaql query) = preprocess_gaql query"
    by (simp add: preprocess_gaql_def [of "preprocess_gaql query"])
qed

theorem preprocess_gaql_idempotent_witness:
  "str_contains ''omit_unselected_resource_names''
     ''SELECT campaign.id FROM campaign PARAMETERS omit_unselected_resource_names=true''
   \<and> preprocess_gaql ''SELECT campaign.id FROM campaign PARAMETERS omit_unselected_resource_names=true''
       = ''SELECT campaign.id FROM campaign PARAMETERS omit_unselected_resource_names=true''
   \<and> preprocess_gaql (preprocess_gaql ''SELECT campaign.id FROM campaign'')
       = ''SELECT campaign.id FROM campaign PARAMETERS omit_unselected_resource_names=true''"
proof -
  have a: "str_contains ''omit_unselected_resource_names''
     ''SELECT campaign.id FROM campaign PARAMETERS omit_unselected_resource_names=true''"
    by simp
  have b: "preprocess_gaql ''SELECT campaign.id FROM campaign''
       = ''SELECT campaign.id FROM campaign PARAMETERS omit_unselected_resource_names=true''"
    by (simp add: preprocess_gaql_def)
  show ?thesis
    using a b
      preprocess_gaql_idempotent
        [of "''SELECT campaign.id FROM campaign PARAMETERS omit_unselected_resource_names=true''"]
      preprocess_gaql_idempotent [of "''SELECT campaign.id FROM campaign''"]
    by simp
qed

section \<open>Properties of the token exchange\<close>

lemma dict_get_Inr:
  "dict_get d k dflt = Inr v \<Longrightarrow>
     \<exists>kvs. d = PDict kvs \<and> v = (case map_of kvs k of None \<Rightarrow> dflt | Some x \<Rightarrow> x)"
  by (cases d) (auto simp: dict_get_def)

lemma dict_get_truthy:
  assumes "dict_get d k PNone = Inr v" and "truthy v"
  shows "\<exists>kvs. d = PDict kvs \<and> map_of kvs k = Some v"
proof -
  from dict_get_Inr [OF assms(1)] obtain kvs where
    d: "d = PDict kvs" and v: "v = (case map_of kvs k of None \<Rightarrow> PNone | Some x \<Rightarrow> x)"
    by blast
  from v assms(2) have "map_of kvs k = Some v"
    by (cases "map_of kvs k") auto
  with d show ?thesis by blast
qed


lemma store_token_cases:
  "store_token h w c rt resp = (Inr PNone, c)
   \<or> (\<exists>e. store_token h w c rt resp = (Inl e, c))
   \<or> (\<exists>tok kvs seconds. truthy tok \<and> status_code resp = 200 \<and> json resp = Inr (PDict kvs)
        \<and> map_of kvs ''access_token'' = Some tok
        \<and> store_token h w c rt resp =
            (Inr tok, c(get_cache_key_for_refresh_token h rt \<mapsto>
               \<lparr>access_token = tok, expires_at = time_store w + seconds - 60,
                refresh_token_hash = take 10 rt\<rparr>)))"
proof (cases "status_code resp = 200")
  case False
  then show ?thesis by (simp add: store_token_def)
next
  case ok: True
  show ?thesis
  proof (cases "json resp")
    case (Inl e)
    with ok show ?thesis by (simp add: store_token_def)
  next
    case (Inr token_data)
    show ?thesis
    proof (cases "dict_get token_data ''access_token'' PNone")
      case (Inl e)
      with ok Inr show ?thesis by (simp add: store_token_def)
    next
      case tok: (Inr token)
      show ?thesis
      proof (cases "dict_get token_data ''expires_in'' (PInt 3600)")
        case (Inl e)
        with ok Inr tok show ?thesis by (simp add: store_token_def)
      next
        case ex: (Inr expires_in)
        show ?thesis
        proof (cases "truthy token")
          case False
          with ok Inr tok ex show ?thesis by (simp add: store_token_def)
        next
          case True
          from dict_get_truthy [OF tok True] obtain kvs where
            kvs: "token_data = PDict kvs" "map_of kvs ''access_token'' = Some token"
            by blast
          show ?thesis
          proof (cases "float_operand expires_in")
            case (Inl e)
            with ok Inr tok ex True show ?thesis by (simp add: store_token_def)
          next
            case (Inr seconds)
            with ok \<open>json resp = Inr token_data\<close> tok ex True have
              "store_token h w c rt resp =
                (Inr token, c(get_cache_key_for_refresh_token h rt \<mapsto>
                   \<lparr>access_token = token, expires_at = time_store w + seconds - 60,
                    refresh_token_hash = take 10 rt\<rparr>))"
              by (simp add: store_token_def)
            with ok \<open>json resp = Inr token_data\<close> True kvs show ?thesis
              by blast
          qed
        qed
      qed
    qed
  qed
qed

lemma exchange_cases:
  "(\<exists>sent. exchange h w c rt = (Inr PNone, c, sent))
   \<or> (\<exists>e sent. exchange h w c rt = (Inl e, c, sent))
   \<or> (\<exists>tok client_id client_secret resp kvs seconds.
        truthy tok
        \<and> read_client_credentials w = Inr (Some (client_id, client_secret))
        \<and> requests_post w (token_request client_id client_secret rt) = Inr resp
        \<and> status_code resp = 200 \<and> json resp = Inr (PDict kvs)
        \<and> map_of kvs ''access_token'' = Some tok
        \<and> exchange h w c rt =
            (Inr tok,
             c(get_cache_key_for_refresh_token h rt \<mapsto>
               \<lparr>access_token = tok, expires_at = time_store w + seconds - 60,
                refresh_token_hash = take 10 rt\<rparr>),
             [token_request client_id client_secret rt]))"
proof (cases "read_client_credentials w")
  case (Inl e)
  then show ?thesis by (simp add: exchange_def)
next
  case (Inr creds)
  show ?thesis
  proof (cases creds)
    case None
    with Inr show ?thesis by (simp add: exchange_def)
  next
    case (Some pair)
    obtain client_id client_secret where pair: "pair = (client_id, client_secret)"
      by (cases pair)
    show ?thesis
    proof (cases "requests_post w (token_request client_id client_secret rt)")
      case (Inl e)
      with Inr Some pair show ?thesis by (simp add: exchange_def)
    next
      case resp: (Inr resp)
      from store_token_cases [of h w c rt resp] Inr Some pair resp show ?thesis
        by (auto simp: exchange_def)
    qed
  qed
qed

lemma try_exchange_cases:
  "(\<exists>sent. try_exchange h w c rt = (Inr PNone, c, sent))
   \<or> (\<exists>tok client_id client_secret resp kvs seconds.
        truthy tok
        \<and> read_client_credentials w = Inr (Some (client_id, client_secret))
        \<and> requests_post w (token_request client_id client_secret rt) = Inr resp
        \<and> status_code resp = 200 \<and> json resp = Inr (PDict kvs)
        \<and> map_of kvs ''access_token'' = Some tok
        \<and> try_exchange h w c rt =
            (Inr tok,
             c(get_cache_key_for_refresh_token h rt \<mapsto>
               \<lparr>access_token = tok, expires_at = time_store w + seconds - 60,
                refresh_token_hash = take 10 rt\<rparr>),
             [token_request client_id client_secret rt]))"
proof -
  consider
    (none) sent where "exchange h w c rt = (Inr PNone, c, sent)"
  | (exn) e sent where "exchange h w c rt = (Inl e, c, sent)"
  | (token) tok client_id client_secret resp kvs seconds where
      "truthy tok"
      "read_client_credentials w = Inr (Some (client_id, client_secret))"
      "requests_post w (token_request client_id client_secret rt) = Inr resp"
      "status_code resp = 200" "json resp = Inr (PDict kvs)"
      "map_of kvs ''access_token'' = Some tok"
      "exchange h w c rt =
            (Inr tok,
             c(get_cache_key_for_refresh_token h rt \<mapsto>
               \<lparr>access_token = tok, expires_at = time_store w + seconds - 60,
                refresh_token_hash = take 10 rt\<rparr>),
             [token_request client_id client_secret rt])"
    using exchange_cases [of h w c rt] by blast
  then show ?thesis
  proof cases
    case none
    then show ?thesis by (simp add: try_exchange_def)
  next
    case exn
    then show ?thesis by (simp add: try_exchange_def)
  next
    case token
    from token(7) have "try_exchange h w c rt =
            (Inr tok,
             c(get_cache_key_for_refresh_token h rt \<mapsto>
               \<lparr>access_token = tok, expires_at = time_store w + seconds - 60,
                refresh_token_hash = take 10 rt\<rparr>),
             [token_request client_id client_secret rt])"
      by (simp add: try_exchange_def)
    with token(1-6) show ?thesis by blast
  qed
qed

lemma generate_without_hit:
  assumes "\<forall>e. c (get_cache_key_for_refresh_token h rt) = Some e \<longrightarrow> \<not> time_check w < expires_at e"
  shows "generate_access_token_from_refresh h w c rt = try_exchange h w c rt"
  using assms by (simp add: generate_access_token_from_refresh_def split: option.split)

lemma generate_with_hit:
  assumes "c (get_cache_key_for_refresh_token h rt) = Some e" and "time_check w < expires_at e"
  shows "generate_access_token_from_refresh h w c rt = (Inr (access_token e), c, [])"
  using assms by (simp add: generate_access_token_from_refresh_def)

text \<open>
  Claim C1. When the cache holds no unexpired entry for a refresh token and the call
  returns an access token, one request was sent to the OAuth provider and the token is
  stored under the key derived from the refresh token; every later call with the same
  refresh token that finds this entry unexpired returns the same token, leaves the
  cache as it is and sends no request.
\<close>

theorem exchanged_token_is_cached:
  assumes nohit:
      "\<forall>e. c (get_cache_key_for_refresh_token h rt) = Some e \<longrightarrow> \<not> time_check w < expires_at e"
    and call: "generate_access_token_from_refresh h w c rt = (Inr tok, c', sent)"
    and tok: "tok \<noteq> PNone"
  shows "(\<exists>client_id client_secret. sent = [token_request client_id client_secret rt])
    \<and> (\<exists>e. c' (get_cache_key_for_refresh_token h rt) = Some e \<and> access_token e = tok
          \<and> (\<forall>w2 c2. c2 (get_cache_key_for_refresh_token h rt) = Some e
                \<and> time_check w2 < expires_at e \<longrightarrow>
              generate_access_token_from_refresh h w2 c2 rt = (Inr tok, c2, [])))"
proof -
  have "generate_access_token_from_refresh h w c rt = try_exchange h w c rt"
    using nohit by (rule generate_without_hit)
  with call have tr: "try_exchange h w c rt = (Inr tok, c', sent)"
    by simp
  from try_exchange_cases [of h w c rt] tr tok obtain client_id client_secret seconds where
    sent: "sent = [token_request client_id client_secret rt]" and
    c': "c' = c(get_cache_key_for_refresh_token h rt \<mapsto>
               \<lparr>access_token = tok, expires_at = time_store w + seconds - 60,
                refresh_token_hash = take 10 rt\<rparr>)"
    by auto
  define e where "e = \<lparr>access_token = tok, expires_at = time_store w + seconds - 60,
                refresh_token_hash = take 10 rt\<rparr>"
  have stored: "c' (get_cache_key_for_refresh_token h rt) = Some e"
    by (simp add: c' e_def)
  have acc: "access_token e = tok" by (simp add: e_def)
  have again: "\<forall>w2 c2. c2 (get_cache_key_for_refresh_token h rt) = Some e
                \<and> time_check w2 < expires_at e \<longrightarrow>
              generate_access_token_from_refresh h w2 c2 rt = (Inr tok, c2, [])"
    using generate_with_hit [of _ h rt e] acc by auto
  from sent stored acc again show ?thesis by blast
qed

theorem exchanged_token_is_cached_witness:
  "generate_access_token_from_refresh (\<lambda>s. - 42) \<lparr>time_check = 1000, time_store = 1001, import_failure = None,
            env_credentials = None, ROOT_DIR = ''/app'',
            isfile = (\<lambda>p. p = ''/app/google-ads.yaml''),
            read_text = (\<lambda>p. Inr ''client_id: app-id''),
            yaml_safe_load = (\<lambda>s. Inr (PDict [(''client_id'', PStr ''app-id''),
                                           (''client_secret'', PStr ''app-secret'')])),
            requests_post = (\<lambda>req. Inr \<lparr>status_code = 200,
               json = Inr (PDict [(''access_token'', PStr ''ya29.a0''),
                                  (''expires_in'', PInt 3599)])\<rparr>)\<rparr> Map.empty ''1//0gRefreshToken''
     = (Inr (PStr ''ya29.a0''),
        [get_cache_key_for_refresh_token (\<lambda>s. - 42) ''1//0gRefreshToken'' \<mapsto>
           \<lparr>access_token = PStr ''ya29.a0'', expires_at = 4540,
            refresh_token_hash = ''1//0gRefre''\<rparr>],
        [token_request (PStr ''app-id'') (PStr ''app-secret'') ''1//0gRefreshToken''])
   \<and> generate_access_token_from_refresh (\<lambda>s. - 42) \<lparr>time_check = 4000, time_store = 4001, import_failure = Some ImportError,
            env_credentials = None, ROOT_DIR = ''/app'',
            isfile = (\<lambda>p. False),
            read_text = (\<lambda>p. Inl OSError),
            yaml_safe_load = (\<lambda>s. Inl ValueError),
            requests_post = (\<lambda>req. Inl OSError)\<rparr>
        [get_cache_key_for_refresh_token (\<lambda>s. - 42) ''1//0gRefreshToken'' \<mapsto>
           \<lparr>access_token = PStr ''ya29.a0'', expires_at = 4540,
            refresh_token_hash = ''1//0gRefre''\<rparr>]
        ''1//0gRefreshToken''
     = (Inr (PStr ''ya29.a0''),
        [get_cache_key_for_refresh_token (\<lambda>s. - 42) ''1//0gRefreshToken'' \<mapsto>
           \<lparr>access_token = PStr ''ya29.a0'', expires_at = 4540,
            refresh_token_hash = ''1//0gRefre''\<rparr>],
        [])
   \<and> get_cache_key_for_refresh_token (\<lambda>s. - 42) ''1//0gRefreshToken'' = ''refresh_token_42''"
proof -
  let ?h = "\<lambda>s :: string. - 42 :: int"
  let ?rt = "''1//0gRefreshToken''"
  let ?w = "\<lparr>time_check = 1000, time_store = 1001, import_failure = None,
            env_credentials = None, ROOT_DIR = ''/app'',
            isfile = (\<lambda>p. p = ''/app/google-ads.yaml''),
            read_text = (\<lambda>p. Inr ''client_id: app-id''),
            yaml_safe_load = (\<lambda>s. Inr (PDict [(''client_id'', PStr ''app-id''),
                                           (''client_secret'', PStr ''app-secret'')])),
            requests_post = (\<lambda>req. Inr \<lparr>status_code = 200,
               json = Inr (PDict [(''access_token'', PStr ''ya29.a0''),
                                  (''expires_in'', PInt 3599)])\<rparr>)\<rparr>"
  let ?w2 = "\<lparr>time_check = 4000, time_store = 4001, import_failure = Some ImportError,
            env_credentials = None, ROOT_DIR = ''/app'',
            isfile = (\<lambda>p. False),
            read_text = (\<lambda>p. Inl OSError),
            yaml_safe_load = (\<lambda>s. Inl ValueError),
            requests_post = (\<lambda>req. Inl OSError)\<rparr>"
  let ?entry = "\<lparr>access_token = PStr ''ya29.a0'', expires_at = 4540,
            refresh_token_hash = ''1//0gRefre''\<rparr>"
  let ?c' = "[get_cache_key_for_refresh_token ?h ?rt \<mapsto> ?entry]"
  have nohit: "\<forall>e. Map.empty (get_cache_key_for_refresh_token ?h ?rt) = Some e
      \<longrightarrow> \<not> time_check ?w < expires_at e"
    by simp
  have call: "generate_access_token_from_refresh ?h ?w Map.empty ?rt
     = (Inr (PStr ''ya29.a0''), ?c',
        [token_request (PStr ''app-id'') (PStr ''app-secret'') ?rt])"
    by (simp add: generate_access_token_from_refresh_def try_exchange_def exchange_def
        read_client_credentials_def credentials_path_def dict_get_def store_token_def
        float_operand_def)
  have tok: "PStr ''ya29.a0'' \<noteq> PNone" by simp
  from exchanged_token_is_cached [OF nohit call tok] obtain e where
    e: "?c' (get_cache_key_for_refresh_token ?h ?rt) = Some e"
      "\<forall>w2 c2. c2 (get_cache_key_for_refresh_token ?h ?rt) = Some e
                \<and> time_check w2 < expires_at e \<longrightarrow>
              generate_access_token_from_refresh ?h w2 c2 ?rt = (Inr (PStr ''ya29.a0''), c2, [])"
    by blast
  from e(1) have eq: "e = ?entry" by simp
  have again: "generate_access_token_from_refresh ?h ?w2 ?c' ?rt = (Inr (PStr ''ya29.a0''), ?c', [])"
    using e(2) [rule_format, of ?c' ?w2] eq by simp
  have key: "get_cache_key_for_refresh_token ?h ?rt = ''refresh_token_42''"
    by code_simp
  from call again key show ?thesis by blast
qed















section \<open>Properties of the request headers\<close>





section \<open>Properties of the value formatting\<close>

text \<open>
  Claim C6. An enum member whose symbolic name can be read is formatted as that name, a
  string; when reading the name raises \<open>AttributeError\<close> the result is the member's
  number; a value that is neither a message nor an enum member is returned unchanged.
\<close>

theorem format_value_enum_name:
  "format_value to_dict debug_print (Enum (Inr name) number) = Inr (Plain (PStr name))
   \<and> format_value to_dict debug_print (Enum (Inl AttributeError) number)
       = Inr (Plain (PInt number))
   \<and> format_value to_dict debug_print (Plain p) = Inr (Plain p)"
  by (simp add: format_value_def format_value_body_def)



section \<open>Properties of the row flattening\<close>







section \<open>Properties of \<open>execute_gaql\<close>\<close>
















end
